theory Spec2Isabelle
  imports Complex_Main "HOL-Library.Word"
begin

section \<open>JavaScript values\<close>

text \<open>
  The frontend is JavaScript. A string is a sequence of UTF-16 code units; a number is
  NaN, an infinity, or a finite value, which is kept as the exact rational it denotes
  (every finite double is one; the two zeros are not told apart, no operation below
  distinguishes them). Values that arrive in a response body are JSON values; a
  property that is missing reads as \<open>undefined\<close>, which is \<open>None\<close> of an option.
\<close>

type_synonym jschar = "16 word"
type_synonym jsstring = "jschar list"

definition js :: "string \<Rightarrow> jsstring" where
  "js s = map (\<lambda>c. of_char c) s"

datatype jsnum = NaN | PosInf | NegInf | Fin rat

datatype json = JNull | JBool bool | JNum jsnum | JStr jsstring
  | JArr "json list" | JObj "(jsstring \<times> json) list"

record js_error =
  err_response :: "json option"
  err_message :: jsstring

text \<open>
  A caught error: \<open>err_response\<close> is the body \<open>error.response.data\<close> when the error carries
  a response (axios, non-2xx status) and \<open>None\<close> when \<open>error.response\<close> is undefined (a
  network error, or a TypeError raised by the handler's own code); \<open>err_message\<close> is
  \<open>error.message\<close>.
\<close>

text \<open>
  What the model takes from the JavaScript engine and from the libraries the components
  import (date-fns, i18next), none of which is part of the repository:
  \<^item> \<open>numberToString\<close>: Number::toString on a finite number (it depends on the
    neighbouring doubles);
  \<^item> \<open>toNumber\<close>: ToNumber on a value that is not a number and has a primitive form;
  \<^item> \<open>formatDate\<close>: \<open>format(new Date(cell), 'dd/MM/yyyy HH:mm')\<close>, which throws on an
    invalid date;
  \<^item> \<open>typeErrorMessage\<close>: the text of the TypeError raised by a property read, a
    method call or a conversion on a value that does not support it;
  \<^item> \<open>invalidChildMessage\<close>: the text of the error React throws for a child that is a
    plain object;
  \<^item> \<open>columnLabel\<close>: the lookup \<open>t(`columns.${col}`, col)\<close>.
\<close>

record runtime =
  numberToString :: "rat \<Rightarrow> jsstring"
  toNumber :: "json \<Rightarrow> jsnum"
  formatDate :: "json \<Rightarrow> js_error + jsstring"
  typeErrorMessage :: "jsstring \<Rightarrow> jsstring"
  invalidChildMessage :: "json \<Rightarrow> jsstring"
  columnLabel :: "json \<Rightarrow> jsstring"

text \<open>ToBoolean, as used by \<open>!\<close>, \<open>&&\<close>, \<open>||\<close> and \<open>? :\<close>.\<close>

fun truthy :: "json \<Rightarrow> bool" where
  "truthy JNull = False"
| "truthy (JBool b) = b"
| "truthy (JNum NaN) = False"
| "truthy (JNum (Fin x)) = (x \<noteq> 0)"
| "truthy (JNum PosInf) = True"
| "truthy (JNum NegInf) = True"
| "truthy (JStr s) = (s \<noteq> [])"
| "truthy (JArr xs) = True"
| "truthy (JObj kvs) = True"

definition truthy_opt :: "json option \<Rightarrow> bool" where
  "truthy_opt v = (case v of None \<Rightarrow> False | Some x \<Rightarrow> truthy x)"

text \<open>\<open>a || b\<close>: the left operand when it is truthy, the right one otherwise.\<close>

definition js_or :: "json option \<Rightarrow> json option \<Rightarrow> json option" where
  "js_or a b = (if truthy_opt a then a else b)"

text \<open>
  \<open>v?.k\<close> for the keys read in this program (\<open>detail\<close>, \<open>sql\<close>, \<open>data\<close>, \<open>columns\<close>,
  \<open>error\<close>, \<open>message\<close>): undefined on undefined and null (the chain short-circuits) and
  on primitives and arrays (which have no property of these names), the stored value on
  an object.
\<close>

fun opt_prop :: "json option \<Rightarrow> jsstring \<Rightarrow> json option" where
  "opt_prop (Some (JObj kvs)) k = map_of kvs k"
| "opt_prop v k = None"

text \<open>\<open>d.k\<close> without the \<open>?\<close>: reading a property of null throws a TypeError.\<close>

definition read_prop :: "runtime \<Rightarrow> json \<Rightarrow> jsstring \<Rightarrow> js_error + json option" where
  "read_prop rt d k =
     (if d = JNull
      then Inl \<lparr>err_response = None, err_message = typeErrorMessage rt k\<rparr>
      else Inr (opt_prop (Some d) k))"

text \<open>\<open>Array.prototype.join\<close> on strings already converted.\<close>

fun join :: "jsstring \<Rightarrow> jsstring list \<Rightarrow> jsstring" where
  "join sep [] = []"
| "join sep [x] = x"
| "join sep (x # y # ys) = x @ sep @ join sep (y # ys)"

text \<open>The results of a list of steps, up to the first one that throws.\<close>

fun collect :: "(js_error + 'a) list \<Rightarrow> js_error + 'a list" where
  "collect [] = Inr []"
| "collect (Inl e # rs) = Inl e"
| "collect (Inr v # rs) = (case collect rs of Inl e \<Rightarrow> Inl e | Inr vs \<Rightarrow> Inr (v # vs))"

text \<open>
  \<open>String(v)\<close> and the conversion inside a template literal; \<open>Inl\<close> is the TypeError it
  throws. An array joins its elements with a comma, null elements giving the empty
  string, and throws where an element does. A plain object gives \<open>[object Object]\<close>
  through \<open>Object.prototype.toString\<close>, unless it has an own key \<open>toString\<close>: a JSON value
  is not callable, \<open>valueOf\<close> does not give a primitive either, and the conversion throws.
\<close>

fun ToString :: "runtime \<Rightarrow> json \<Rightarrow> js_error + jsstring" where
  "ToString rt JNull = Inr (js ''null'')"
| "ToString rt (JBool b) = Inr (if b then js ''true'' else js ''false'')"
| "ToString rt (JNum NaN) = Inr (js ''NaN'')"
| "ToString rt (JNum PosInf) = Inr (js ''Infinity'')"
| "ToString rt (JNum NegInf) = Inr (js ''-Infinity'')"
| "ToString rt (JNum (Fin x)) = Inr (numberToString rt x)"
| "ToString rt (JStr s) = Inr s"
| "ToString rt (JArr xs) =
     (case collect (map (\<lambda>x. if x = JNull then Inr [] else ToString rt x) xs) of
        Inl e \<Rightarrow> Inl e
      | Inr ss \<Rightarrow> Inr (join (js '','') ss))"
| "ToString rt (JObj kvs) =
     (if map_of kvs (js ''toString'') = None then Inr (js ''[object Object]'')
      else Inl \<lparr>err_response = None, err_message = typeErrorMessage rt (js ''toString'')\<rparr>)"

definition ToString_opt :: "runtime \<Rightarrow> json option \<Rightarrow> js_error + jsstring" where
  "ToString_opt rt v = (case v of None \<Rightarrow> Inr (js ''undefined'') | Some x \<Rightarrow> ToString rt x)"

text \<open>The values whose conversion to a string does not throw.\<close>

fun stringable :: "json \<Rightarrow> bool" where
  "stringable (JObj kvs) = (map_of kvs (js ''toString'') = None)"
| "stringable (JArr xs) = list_all stringable xs"
| "stringable v = True"

definition stringable_opt :: "json option \<Rightarrow> bool" where
  "stringable_opt v = (case v of None \<Rightarrow> True | Some x \<Rightarrow> stringable x)"

text \<open>
  \<open>String.prototype.trim\<close>: strips WhiteSpace and LineTerminator code units (TAB, LF, VT,
  FF, CR, SP, NBSP, the Unicode space separators, LS, PS and ZWNBSP) from both ends.
\<close>

definition isWhiteSpace :: "jschar \<Rightarrow> bool" where
  "isWhiteSpace c =
     (c \<in> {0x09, 0x0A, 0x0B, 0x0C, 0x0D, 0x20, 0xA0, 0x1680,
            0x2028, 0x2029, 0x202F, 0x205F, 0x3000, 0xFEFF}
      \<or> (0x2000 \<le> c \<and> c \<le> 0x200A))"

definition trim :: "jsstring \<Rightarrow> jsstring" where
  "trim s = rev (dropWhile isWhiteSpace (rev (dropWhile isWhiteSpace s)))"

subsection \<open>Number.prototype.toFixed(2)\<close>

definition digitChar :: "nat \<Rightarrow> jschar" where
  "digitChar d = of_nat (48 + d)"

function digits :: "nat \<Rightarrow> jsstring" where
  "digits n = (if n < 10 then [digitChar n] else digits (n div 10) @ [digitChar (n mod 10)])"
  by pat_completeness auto
termination
  by (relation "measure id") auto

declare digits.simps [simp del]

text \<open>
  \<open>x.toFixed(2)\<close> as ECMAScript defines it: a non-finite number gives its name; the sign
  is split off; a magnitude of at least \<open>10\<^sup>2\<^sup>1\<close> is printed by Number::toString;
  otherwise \<open>n\<close> is the integer nearest to \<open>100 x\<close> (the larger one on a tie), its digits are
  padded with zeros to three characters, and a point goes before the last two.
\<close>

definition toFixed2 :: "runtime \<Rightarrow> jsnum \<Rightarrow> jsstring" where
  "toFixed2 rt v =
     (case v of
        NaN \<Rightarrow> js ''NaN''
      | PosInf \<Rightarrow> js ''Infinity''
      | NegInf \<Rightarrow> js ''-Infinity''
      | Fin x \<Rightarrow>
          (let s = (if x < 0 then js ''-'' else []);
               ax = \<bar>x\<bar>
           in if 10 ^ 21 \<le> ax then s @ numberToString rt ax
              else
                (let n = nat \<lfloor>ax * 100 + 1 / 2\<rfloor>;
                     m = digits n;
                     m' = (if length m \<le> 2 then replicate (3 - length m) (digitChar 0) @ m else m);
                     k = length m'
                 in s @ take (k - 2) m' @ js ''.'' @ drop (k - 2) m')))"

section \<open>The query session (components App and QueryView)\<close>

text \<open>
  \<open>App\<close> is \<open>frontend/src/App.jsx\<close>; the source of \<open>QueryView\<close> follows the README in
  \<open>frontend/README.md\<close>.
\<close>

datatype role = User | Assistant

record turn =
  role :: role
  content :: jsstring

record answer =
  a_question :: "jsstring option"
  a_sql :: "json option"
  a_data :: "json option"
  a_columns :: "json option"
  a_error :: "json option"

datatype entry = Question jsstring | Answer answer

text \<open>
  The state of \<open>App\<close> (\<open>history\<close>, the transcript; \<open>conversationHistory\<close>, the context
  sent to the language model) and of \<open>QueryView\<close> (\<open>question\<close>, the input field;
  \<open>loading\<close>, the busy flag).
\<close>

record session =
  history :: "entry list"
  conversationHistory :: "turn list"
  question :: jsstring
  loading :: bool

definition init_session :: session where
  "init_session = \<lparr>history = [], conversationHistory = [], question = [], loading = False\<rparr>"

record request =
  rq_question :: jsstring
  rq_conversation_history :: "turn list"

text \<open>
  How \<open>await axios.post(...)\<close> ends: the promise resolves with \<open>response.data\<close>, or it is
  rejected (no response at all, or a response with a non-2xx status).
\<close>

datatype outcome = Resolved json | Rejected js_error

text \<open>
  \<open>handleSubmit\<close> up to its \<open>await\<close>. The result is the state in which the request has been
  issued, and the request (\<open>None\<close> when the handler returned at its guard). The guard
  tests the trimmed input only; \<open>loading\<close> is not read. (\<open>e.preventDefault()\<close> touches no
  state of the components.) The request carries \<open>conversationHistory\<close> as the handler's
  closure holds it, the value of the render in which the handler was created.
\<close>

definition handleSubmit :: "session \<Rightarrow> session \<times> request option" where
  "handleSubmit s =
     (if trim (question s) = [] then (s, None)
      else
        (let userQuestion = question s;
             s1 = s\<lparr>question := []\<rparr>;
             s2 = s1\<lparr>loading := True\<rparr>;
             s3 = s2\<lparr>history := history s2 @ [Question userQuestion]\<rparr>
         in (s3, Some \<lparr>rq_question = userQuestion,
                       rq_conversation_history = conversationHistory s\<rparr>)))"

text \<open>
  The \<open>try\<close> block after the \<open>await\<close>: \<open>Inl\<close> is the thrown error. The rejection of the
  request and the read \<open>response.data.sql\<close> are the two places that throw. Past them the
  block only hands two updater functions to React, and the result is what they close
  over: \<open>response.data\<close> and \<open>sqlGenerated\<close>.
\<close>

definition try_block :: "runtime \<Rightarrow> outcome \<Rightarrow> js_error + json \<times> json option" where
  "try_block rt out =
     (case out of
        Rejected e \<Rightarrow> Inl e
      | Resolved d \<Rightarrow>
          (case read_prop rt d (js ''sql'') of
             Inl e \<Rightarrow> Inl e
           | Inr sqlGenerated \<Rightarrow> Inr (d, sqlGenerated)))"

text \<open>
  The two updaters, \<open>prev => [...prev, x]\<close>. React runs them when it renders, on the state
  current then, and outside the handler's \<open>try\<close>/\<open>catch\<close>. The first builds the answer
  entry from property reads that cannot throw. The second evaluates the template literal
  of the assistant turn, which converts \<open>sqlGenerated\<close> to a string and throws where that
  conversion does.
\<close>

definition history_updater :: "jsstring \<Rightarrow> json \<Rightarrow> json option \<Rightarrow> entry list \<Rightarrow> entry list" where
  "history_updater userQuestion d sqlGenerated prev =
     prev @ [Answer \<lparr>a_question = Some userQuestion,
                     a_sql = sqlGenerated,
                     a_data = opt_prop (Some d) (js ''data''),
                     a_columns = opt_prop (Some d) (js ''columns''),
                     a_error = opt_prop (Some d) (js ''error'')\<rparr>]"

definition context_updater ::
  "runtime \<Rightarrow> jsstring \<Rightarrow> json option \<Rightarrow> turn list \<Rightarrow> js_error + turn list" where
  "context_updater rt userQuestion sqlGenerated prev =
     (case ToString_opt rt sqlGenerated of
        Inl e \<Rightarrow> Inl e
      | Inr sqlText \<Rightarrow>
          Inr (prev @
               [\<lparr>role = User, content = userQuestion\<rparr>,
                \<lparr>role = Assistant,
                 content = js ''I searched for: '' @ userQuestion @
                           js ''. The SQL query was: '' @ sqlText\<rparr>]))"

text \<open>\<open>error.response?.data?.detail || error.message || 'Failed to process query'\<close>\<close>

definition query_error :: "js_error \<Rightarrow> json option" where
  "query_error e =
     js_or (js_or (opt_prop (err_response e) (js ''detail'')) (Some (JStr (err_message e))))
           (Some (JStr (js ''Failed to process query'')))"

definition catch_block :: "js_error \<Rightarrow> session \<Rightarrow> session" where
  "catch_block e s =
     s\<lparr>history := history s @
          [Answer \<lparr>a_question = None, a_sql = None, a_data = None, a_columns = None,
                   a_error = query_error e\<rparr>]\<rparr>"

text \<open>
  \<open>handleSubmit\<close> from the \<open>await\<close> on: \<open>try\<close>, \<open>catch\<close> and \<open>finally\<close>, and the render that
  applies the queued updates. \<open>Inr\<close> is the state after that render. \<open>Inl\<close> is the error
  an updater throws in it: neither \<open>App\<close> nor \<open>QueryView\<close> catches it, so React unmounts
  them, and there is no state any more.
\<close>

definition handleSubmit_resume ::
  "runtime \<Rightarrow> request \<Rightarrow> outcome \<Rightarrow> session \<Rightarrow> js_error + session" where
  "handleSubmit_resume rt req out s =
     (case try_block rt out of
        Inl e \<Rightarrow> Inr ((catch_block e s)\<lparr>loading := False\<rparr>)
      | Inr (d, sqlGenerated) \<Rightarrow>
          (case context_updater rt (rq_question req) sqlGenerated (conversationHistory s) of
             Inl e \<Rightarrow> Inl e
           | Inr context \<Rightarrow>
               Inr (s\<lparr>history := history_updater (rq_question req) d sqlGenerated (history s),
                      conversationHistory := context,
                      loading := False\<rparr>)))"


text \<open>
  The outcomes on which the context updater does not throw: every rejection, and every
  payload whose \<open>sql\<close> value has a string form (a null payload never reaches the updater).
\<close>

definition sql_converts :: "outcome \<Rightarrow> bool" where
  "sql_converts out =
     (case out of
        Rejected e \<Rightarrow> True
      | Resolved d \<Rightarrow> stringable_opt (opt_prop (Some d) (js ''sql'')))"

text \<open>
  The form. \<open>handleSubmit\<close> has one caller, \<open><form onSubmit={handleSubmit}>\<close>. The form
  holds \<open><input disabled={loading}>\<close> and
  \<open><button type="submit" disabled={loading || !question.trim()}>\<close>.
\<close>

record form_view =
  input_disabled :: bool
  button_disabled :: bool

definition form_of :: "session \<Rightarrow> form_view" where
  "form_of s =
     \<lparr>input_disabled = loading s,
      button_disabled = (loading s \<or> trim (question s) = [])\<rparr>"

text \<open>
  The two ways a user submits a form. A click on a disabled button dispatches no event.
  The Enter key needs the focus in the input, which a disabled input cannot have, and
  submits through the form's default button, which does nothing when disabled.
\<close>

datatype gesture = ClickSubmit | PressEnter

fun reaches_handler :: "form_view \<Rightarrow> gesture \<Rightarrow> bool" where
  "reaches_handler f ClickSubmit = (\<not> button_disabled f)"
| "reaches_handler f PressEnter = (\<not> input_disabled f \<and> \<not> button_disabled f)"

definition form_submit :: "gesture \<Rightarrow> session \<Rightarrow> session \<times> request option" where
  "form_submit g s = (if reaches_handler (form_of s) g then handleSubmit s else (s, None))"

definition handleNewConversation :: "session \<Rightarrow> session" where
  "handleNewConversation s = (s\<lparr>history := []\<rparr>)\<lparr>conversationHistory := []\<rparr>"

text \<open>
  The operations on a session: typing or picking a suggestion (\<open>setQuestion\<close>), a submit,
  the end of a request issued earlier, and the new-conversation button. A submit runs
  the handler whether or not the form would let it, and the end of a request may carry
  any request and any outcome, so the runs below cover every run of the program.
\<close>

datatype event = SetQuestion jsstring | Submit | QueryDone request outcome | NewConversation

fun step :: "runtime \<Rightarrow> event \<Rightarrow> session \<Rightarrow> js_error + session" where
  "step rt (SetQuestion q) s = Inr (s\<lparr>question := q\<rparr>)"
| "step rt Submit s = Inr (fst (handleSubmit s))"
| "step rt (QueryDone req out) s = handleSubmit_resume rt req out s"
| "step rt NewConversation s = Inr (handleNewConversation s)"

text \<open>A run ends at the first operation that unmounts the tree.\<close>

fun run :: "runtime \<Rightarrow> event list \<Rightarrow> session \<Rightarrow> js_error + session" where
  "run rt [] s = Inr s"
| "run rt (e # es) s = (case step rt e s of Inl x \<Rightarrow> Inl x | Inr s' \<Rightarrow> run rt es s')"

fun user_assistant_pairs :: "turn list \<Rightarrow> bool" where
  "user_assistant_pairs [] = True"
| "user_assistant_pairs [u] = False"
| "user_assistant_pairs (u # a # ts) =
     (role u = User \<and> role a = Assistant \<and> user_assistant_pairs ts)"

section \<open>Rendering an answer (component QueryView)\<close>

definition try_catch :: "js_error + 'a \<Rightarrow> (js_error \<Rightarrow> js_error + 'a) \<Rightarrow> js_error + 'a" where
  "try_catch body handler = (case body of Inl e \<Rightarrow> handler e | Inr v \<Rightarrow> Inr v)"

text \<open>
  \<open>['ItemPrice', 'price', 'ItemPrice'].includes(colName)\<close> and
  \<open>['LastUpdate', 'last_update'].includes(colName)\<close>; \<open>typeof cell === 'number'\<close>.
\<close>

definition isPrice :: "json option \<Rightarrow> bool" where
  "isPrice colName =
     (colName \<in> set [Some (JStr (js ''ItemPrice'')), Some (JStr (js ''price'')),
                      Some (JStr (js ''ItemPrice''))])"

definition isDate :: "json option \<Rightarrow> bool" where
  "isDate colName =
     (colName \<in> set [Some (JStr (js ''LastUpdate'')), Some (JStr (js ''last_update''))])"

definition is_number :: "json \<Rightarrow> bool" where
  "is_number cell = (case cell of JNum n \<Rightarrow> True | _ \<Rightarrow> False)"

definition number_of :: "json \<Rightarrow> jsnum" where
  "number_of cell = (case cell of JNum n \<Rightarrow> n | _ \<Rightarrow> NaN)"

text \<open>
  The body of the callback of \<open>row.map\<close>, from \<open>let cellValue = 'N/A'\<close> on. \<open>colName\<close> is
  \<open>item.columns[j]\<close>, undefined when the row is longer than the column list. \<open>Inl\<close> is
  an exception leaving the callback. The fallback \<open>String(cell)\<close> of the date branch is
  in the \<open>catch\<close> block, so what it throws is not caught.
\<close>

definition formatCell :: "runtime \<Rightarrow> json \<Rightarrow> json option \<Rightarrow> js_error + jsstring" where
  "formatCell rt cell colName =
     (if cell \<noteq> JNull then
        (if isPrice colName \<and> is_number cell then Inr (toFixed2 rt (number_of cell))
         else if isDate colName then
           try_catch (formatDate rt cell) (\<lambda>e. ToString rt cell)
         else ToString rt cell)
      else Inr (js ''N/A''))"

text \<open>
  The receiver of \<open>.map\<close> has to be an array; on anything else the call throws. The
  header cells (\<open>item.columns.map\<close>) are built before the body rows (\<open>item.data.map\<close>, and
  \<open>row.map\<close> for each row), and the first exception ends the render.
\<close>

definition as_array :: "runtime \<Rightarrow> json option \<Rightarrow> js_error + json list" where
  "as_array rt v =
     (case v of
        Some (JArr xs) \<Rightarrow> Inr xs
      | _ \<Rightarrow> Inl \<lparr>err_response = None, err_message = typeErrorMessage rt (js ''map'')\<rparr>)"

definition nth_opt :: "'a list \<Rightarrow> nat \<Rightarrow> 'a option" where
  "nth_opt xs j = (if j < length xs then Some (xs ! j) else None)"

definition render_row :: "runtime \<Rightarrow> json list \<Rightarrow> json \<Rightarrow> js_error + jsstring list" where
  "render_row rt cols row =
     (case as_array rt (Some row) of
        Inl e \<Rightarrow> Inl e
      | Inr cells \<Rightarrow>
          collect (map (\<lambda>(j, cell). formatCell rt cell (nth_opt cols j)) (enumerate 0 cells)))"

record table =
  thead :: "jsstring list"
  tbody :: "jsstring list list"

text \<open>
  A header cell, \<open>t(`columns.${col}`, col)\<close>: the template literal converts the column
  name to a string before the lookup.
\<close>

definition header_cell :: "runtime \<Rightarrow> json \<Rightarrow> js_error + jsstring" where
  "header_cell rt col =
     (case ToString rt col of Inl e \<Rightarrow> Inl e | Inr key \<Rightarrow> Inr (columnLabel rt col))"

definition render_table :: "runtime \<Rightarrow> answer \<Rightarrow> js_error + table" where
  "render_table rt item =
     (case as_array rt (a_columns item) of
        Inl e \<Rightarrow> Inl e
      | Inr cols \<Rightarrow>
          (case collect (map (header_cell rt) cols) of
             Inl e \<Rightarrow> Inl e
           | Inr labels \<Rightarrow>
               (case as_array rt (a_data item) of
                  Inl e \<Rightarrow> Inl e
                | Inr rows \<Rightarrow>
                    (case collect (map (render_row rt cols) rows) of
                       Inl e \<Rightarrow> Inl e
                     | Inr body \<Rightarrow> Inr \<lparr>thead = labels, tbody = body\<rparr>))))"

text \<open>\<open>item.data.length\<close>, read on a truthy \<open>item.data\<close>.\<close>

fun js_length :: "json option \<Rightarrow> json option" where
  "js_length (Some (JArr xs)) = Some (JNum (Fin (of_nat (length xs))))"
| "js_length (Some (JStr s)) = Some (JNum (Fin (of_nat (length s))))"
| "js_length (Some (JObj kvs)) = map_of kvs (js ''length'')"
| "js_length v = None"

fun num_gt_zero :: "jsnum \<Rightarrow> bool" where
  "num_gt_zero NaN = False"
| "num_gt_zero PosInf = True"
| "num_gt_zero NegInf = False"
| "num_gt_zero (Fin x) = (0 < x)"

text \<open>
  \<open>v > 0\<close> and \<open>v === 0\<close>. The comparison converts an operand that is not a number; on
  an object or an array that goes through its string form, and throws where \<open>String\<close>
  does.
\<close>

definition gt_zero :: "runtime \<Rightarrow> json option \<Rightarrow> js_error + bool" where
  "gt_zero rt v =
     (case v of
        None \<Rightarrow> Inr False
      | Some (JNum n) \<Rightarrow> Inr (num_gt_zero n)
      | Some x \<Rightarrow>
          (case ToString rt x of
             Inl e \<Rightarrow> Inl e
           | Inr t \<Rightarrow> Inr (num_gt_zero (toNumber rt x))))"

definition eq_zero :: "json option \<Rightarrow> bool" where
  "eq_zero v = (v = Some (JNum (Fin 0)))"

text \<open>
  What React accepts as a child, \<open>{item.error}\<close>: strings, numbers, booleans, null and
  arrays of such. A plain object is refused with an error.
\<close>

fun react_child :: "json \<Rightarrow> bool" where
  "react_child (JObj kvs) = False"
| "react_child (JArr xs) = list_all react_child xs"
| "react_child v = True"

text \<open>
  What is shown for an answer entry: the error box, or a fragment holding the results
  table (if any) and the "no results" info box (if shown). An operand of \<open>&&\<close> that is
  falsy puts neither element into the fragment. \<open>Inl\<close> is an exception thrown while
  rendering.
\<close>

datatype rendered = ErrorBox json | Fragment "table option" bool

definition truthy_value :: "json option \<Rightarrow> json option" where
  "truthy_value v = (case v of None \<Rightarrow> None | Some x \<Rightarrow> if truthy x then Some x else None)"

definition render_answer :: "runtime \<Rightarrow> answer \<Rightarrow> js_error + rendered" where
  "render_answer rt item =
     (case truthy_value (a_error item) of
        Some err \<Rightarrow>
          if react_child err then Inr (ErrorBox err)
          else Inl \<lparr>err_response = None, err_message = invalidChildMessage rt err\<rparr>
      | None \<Rightarrow>
          (case (if truthy_opt (a_data item)
                 then (case gt_zero rt (js_length (a_data item)) of
                         Inl e \<Rightarrow> Inl e
                       | Inr shown \<Rightarrow>
                           if shown then map_sum id Some (render_table rt item) else Inr None)
                 else Inr None) of
             Inl e \<Rightarrow> Inl e
           | Inr tbl \<Rightarrow>
               Inr (Fragment tbl
                      (truthy_opt (a_data item) \<and> eq_zero (js_length (a_data item))))))"

text \<open>A fixed-point numeral with two fractional digits: sign, digits, point, two digits.\<close>

definition isDigit :: "jschar \<Rightarrow> bool" where
  "isDigit c = (0x30 \<le> c \<and> c \<le> 0x39)"

definition two_fraction_digits :: "jsstring \<Rightarrow> bool" where
  "two_fraction_digits s =
     (case rev (if take 1 s = js ''-'' then drop 1 s else s) of
        d2 # d1 # p # ip \<Rightarrow>
          isDigit d2 \<and> isDigit d1 \<and> [p] = js ''.'' \<and> ip \<noteq> [] \<and> list_all isDigit ip
      | _ \<Rightarrow> False)"

section \<open>The control panel (frontend/src/components/ControlPanel.jsx)\<close>

datatype status = Idle | Loading | Success | Error

datatype job = Scrape | Import

text \<open>
  A pending \<open>setTimeout\<close>: the time it is due and its callback, \<open>() => setScrapeStatus('idle')\<close>
  or \<open>() => setImportStatus('idle')\<close>, named by the job whose status it resets. Times are
  in milliseconds.
\<close>

record timer =
  due :: nat
  callback :: job

text \<open>
  The state of \<open>ControlPanel\<close>, with the pending timers and the current time, \<open>clock\<close>.
\<close>

record panel =
  health :: json
  scrapeStatus :: status
  importStatus :: status
  message :: "json option"
  timers :: "timer list"
  clock :: nat

definition init_panel :: panel where
  "init_panel = \<lparr>health = JNull, scrapeStatus = Idle, importStatus = Idle,
                  message = Some (JStr []), timers = [], clock = 0\<rparr>"

definition setTimeout :: "job \<Rightarrow> nat \<Rightarrow> panel \<Rightarrow> panel" where
  "setTimeout cb delay p = p\<lparr>timers := timers p @ [\<lparr>due = clock p + delay, callback = cb\<rparr>]\<rparr>"

text \<open>
  \<open>checkHealth\<close>, run at mount and every 10000 ms: it writes the state only after its
  \<open>await\<close>, \<open>setHealth(response.data)\<close> or, in the \<open>catch\<close> block,
  \<open>setHealth({ status: 'error', error: error.message })\<close>.
\<close>

definition checkHealth :: "outcome \<Rightarrow> panel \<Rightarrow> panel" where
  "checkHealth out p =
     (case out of
        Resolved d \<Rightarrow> p\<lparr>health := d\<rparr>
      | Rejected e \<Rightarrow>
          p\<lparr>health := JObj [(js ''status'', JStr (js ''error'')),
                             (js ''error'', JStr (err_message e))]\<rparr>)"

text \<open>
  \<open>triggerScrape\<close> up to its \<open>await\<close>, and from there on. In the \<open>try\<close> block the read
  \<open>response.data.message\<close> is the one statement that can throw, before any state is
  written. \<open>triggerImport\<close> is the same function on the other status.
\<close>

definition triggerScrape :: "panel \<Rightarrow> panel" where
  "triggerScrape p = (p\<lparr>scrapeStatus := Loading\<rparr>)\<lparr>message := Some (JStr [])\<rparr>"

definition triggerScrape_resume :: "runtime \<Rightarrow> outcome \<Rightarrow> panel \<Rightarrow> panel" where
  "triggerScrape_resume rt out p =
     (case (case out of Rejected e \<Rightarrow> Inl e
                      | Resolved d \<Rightarrow> read_prop rt d (js ''message'')) of
        Inr m \<Rightarrow> setTimeout Scrape 3000 ((p\<lparr>message := m\<rparr>)\<lparr>scrapeStatus := Success\<rparr>)
      | Inl e \<Rightarrow>
          setTimeout Scrape 3000
            ((p\<lparr>message := js_or (opt_prop (err_response e) (js ''detail''))
                                  (Some (JStr (js ''Failed to start scraper'')))\<rparr>)
               \<lparr>scrapeStatus := Error\<rparr>))"

definition triggerImport :: "panel \<Rightarrow> panel" where
  "triggerImport p = (p\<lparr>importStatus := Loading\<rparr>)\<lparr>message := Some (JStr [])\<rparr>"

definition triggerImport_resume :: "runtime \<Rightarrow> outcome \<Rightarrow> panel \<Rightarrow> panel" where
  "triggerImport_resume rt out p =
     (case (case out of Rejected e \<Rightarrow> Inl e
                      | Resolved d \<Rightarrow> read_prop rt d (js ''message'')) of
        Inr m \<Rightarrow> setTimeout Import 3000 ((p\<lparr>message := m\<rparr>)\<lparr>importStatus := Success\<rparr>)
      | Inl e \<Rightarrow>
          setTimeout Import 3000
            ((p\<lparr>message := js_or (opt_prop (err_response e) (js ''detail''))
                                  (Some (JStr (js ''Failed to start importer'')))\<rparr>)
               \<lparr>importStatus := Error\<rparr>))"

text \<open>
  Running a timer's callback, and letting \<open>dt\<close> milliseconds pass: every timer that has
  become due runs, in the order it was set, and is gone afterwards. Nothing in the
  component calls \<open>clearTimeout\<close>.
\<close>

fun run_callback :: "job \<Rightarrow> panel \<Rightarrow> panel" where
  "run_callback Scrape p = p\<lparr>scrapeStatus := Idle\<rparr>"
| "run_callback Import p = p\<lparr>importStatus := Idle\<rparr>"

definition elapse :: "nat \<Rightarrow> panel \<Rightarrow> panel" where
  "elapse dt p =
     (let t = clock p + dt;
          fired = filter (\<lambda>tm. due tm \<le> t) (timers p);
          rest = filter (\<lambda>tm. \<not> due tm \<le> t) (timers p)
      in (fold (\<lambda>tm. run_callback (callback tm)) fired p)\<lparr>timers := rest, clock := t\<rparr>)"

text \<open>The two job kinds side by side.\<close>

fun status_of :: "job \<Rightarrow> panel \<Rightarrow> status" where
  "status_of Scrape p = scrapeStatus p"
| "status_of Import p = importStatus p"

fun trigger_resume :: "runtime \<Rightarrow> job \<Rightarrow> outcome \<Rightarrow> panel \<Rightarrow> panel" where
  "trigger_resume rt Scrape out p = triggerScrape_resume rt out p"
| "trigger_resume rt Import out p = triggerImport_resume rt out p"

section \<open>Concrete inputs\<close>

text \<open>
  A runtime to evaluate the model at concrete inputs. It gives what a JavaScript engine
  and date-fns give at the arguments used below: \<open>1e21\<close> prints as \<open>1e+21\<close>, an integer
  below that as its digits, the local time \<open>2024-01-05T10:30:00\<close> formats as
  \<open>05/01/2024 10:30\<close>, and a value that is no date makes \<open>format\<close> throw. The texts of
  the errors stand for the engine's.
\<close>

definition sample_runtime :: runtime where
  "sample_runtime =
     \<lparr>numberToString =
        (\<lambda>x. if x = 10 ^ 21 then js ''1e+21''
             else (if x < 0 then js ''-'' else []) @ digits (nat \<lfloor>\<bar>x\<bar>\<rfloor>)),
      toNumber = (\<lambda>v. NaN),
      formatDate =
        (\<lambda>v. if v = JStr (js ''2024-01-05T10:30:00'') then Inr (js ''05/01/2024 10:30'')
             else Inl \<lparr>err_response = None, err_message = js ''Invalid time value''\<rparr>),
      typeErrorMessage = (\<lambda>k. js ''TypeError: '' @ k),
      invalidChildMessage = (\<lambda>v. js ''Objects are not valid as a React child''),
      columnLabel = (\<lambda>v. case v of JStr s \<Rightarrow> s | _ \<Rightarrow> [])\<rparr>"

text \<open>The number the JSON text \<open>6.9\<close> parses to: the double nearest to it.\<close>

definition double_6_9 :: jsnum where
  "double_6_9 = Fin (3884354678607053 / 2 ^ 49)"

definition milk_response :: json where
  "milk_response =
     JObj [(js ''sql'', JStr (js ''SELECT ...'')),
           (js ''columns'', JArr [JStr (js ''StoreName''), JStr (js ''ItemPrice'')]),
           (js ''data'', JArr [JArr [JStr (js ''Store A''), JNum double_6_9],
                               JArr [JStr (js ''Store B''), JNum (Fin (29 / 4))]])]"

definition milk_session :: session where
  "milk_session = init_session\<lparr>question := js ''cheapestMilk''\<rparr>"

definition milk_answer :: answer where
  "milk_answer =
     \<lparr>a_question = Some (js ''cheapestMilk''),
      a_sql = Some (JStr (js ''SELECT ...'')),
      a_data = Some (JArr [JArr [JStr (js ''Store A''), JNum double_6_9],
                           JArr [JStr (js ''Store B''), JNum (Fin (29 / 4))]]),
      a_columns = Some (JArr [JStr (js ''StoreName''), JStr (js ''ItemPrice'')]),
      a_error = None\<rparr>"

definition earlier_turns :: "turn list" where
  "earlier_turns =
     [\<lparr>role = User, content = js ''hi''\<rparr>,
      \<lparr>role = Assistant, content = js ''I searched for: hi. The SQL query was: SELECT 1''\<rparr>]"

definition second_session :: session where
  "second_session =
     \<lparr>history = [], conversationHistory = earlier_turns, question = js ''pasta'',
      loading = False\<rparr>"

definition pasta_request :: request where
  "pasta_request = \<lparr>rq_question = js ''pasta'', rq_conversation_history = earlier_turns\<rparr>"

definition busy_session :: session where
  "busy_session =
     \<lparr>history = [], conversationHistory = [], question = js ''x'', loading = True\<rparr>"

definition blank_busy_session :: session where
  "blank_busy_session =
     \<lparr>history = [], conversationHistory = [], question = js ''  '', loading = True\<rparr>"

definition server_error :: js_error where
  "server_error =
     \<lparr>err_response = Some (JObj [(js ''detail'', JStr (js ''scraper busy''))]),
      err_message = js ''Request failed with status code 500''\<rparr>"

definition network_error :: js_error where
  "network_error = \<lparr>err_response = None, err_message = js ''Network Error''\<rparr>"

text \<open>Two queries in a row: the first answered, the second lost to a network error.\<close>

definition two_queries :: "event list" where
  "two_queries =
     [SetQuestion (js ''cheapestMilk''), Submit,
      QueryDone \<lparr>rq_question = js ''cheapestMilk'', rq_conversation_history = []\<rparr>
                (Resolved milk_response),
      SetQuestion (js ''pasta''), Submit,
      QueryDone pasta_request (Rejected network_error)]"

definition started :: json where
  "started = JObj [(js ''message'', JStr (js ''Scraper started''))]"

text \<open>
  Scrape is triggered and accepted at time 0, triggered and accepted again at 2000;
  \<open>retriggered\<close> is the panel right then, \<open>retriggered_later\<close> the panel at 3000.
\<close>

definition retriggered :: panel where
  "retriggered =
     triggerScrape_resume sample_runtime (Resolved started)
       (triggerScrape
          (elapse 2000
             (triggerScrape_resume sample_runtime (Resolved started)
                (triggerScrape init_panel))))"

definition retriggered_later :: panel where
  "retriggered_later = elapse 1000 retriggered"

text \<open>The JSON value \<open>{"toString": 1}\<close>, and a 2xx payload whose \<open>sql\<close> is that value.\<close>

definition toString_object :: json where
  "toString_object = JObj [(js ''toString'', JNum (Fin 1))]"

definition toString_response :: json where
  "toString_response = JObj [(js ''sql'', toString_object), (js ''data'', JArr [])]"


definition empty_answer :: answer where
  "empty_answer =
     \<lparr>a_question = Some (js ''pasta''), a_sql = Some (JStr (js ''SELECT ...'')),
      a_data = Some (JArr []), a_columns = Some (JArr []), a_error = None\<rparr>"

definition bare_answer :: answer where
  "bare_answer =
     \<lparr>a_question = Some (js ''pasta''), a_sql = None, a_data = None, a_columns = None,
      a_error = None\<rparr>"

section \<open>Evaluating literals\<close>

lemma js_simps:
  "js [] = []" "js (c # cs) = of_char c # js cs"
  by (simp_all add: js_def)

section \<open>String conversion\<close>

lemma collect_Inr:
  "(\<exists>vs. collect rs = Inr vs) = (\<forall>r \<in> set rs. \<not> isl r)"
proof (induction rs)
  case Nil
  then show ?case by simp
next
  case (Cons r rs)
  then show ?case by (cases r; cases "collect rs") auto
qed

lemma ToString_stringable:
  "(\<exists>t. ToString rt v = Inr t) = stringable v"
proof (induction v)
  case (JArr xs)
  have "(\<exists>ss. collect (map (\<lambda>x. if x = JNull then Inr [] else ToString rt x) xs) = Inr ss)
          = list_all stringable xs"
    unfolding collect_Inr list_all_iff
  proof (intro ball_cong refl iffI ballI)
    fix x assume "\<forall>r\<in>set (map (\<lambda>x. if x = JNull then Inr [] else ToString rt x) xs). \<not> isl r" "x \<in> set xs"
    then have "\<not> isl (if x = JNull then Inr [] else ToString rt x)" by auto
    then show "stringable x" using JArr [of x] \<open>x \<in> set xs\<close>
      by (cases "x = JNull"; cases "ToString rt x") auto
  next
    fix r assume a: "\<forall>x\<in>set xs. stringable x" "r \<in> set (map (\<lambda>x. if x = JNull then Inr [] else ToString rt x) xs)"
    then obtain x where x: "x \<in> set xs" "r = (if x = JNull then Inr [] else ToString rt x)" by auto
    then show "\<not> isl r" using JArr [of x] a(1)
      by (cases "x = JNull"; cases "ToString rt x") auto
  qed
  then show ?case
    by (cases "collect (map (\<lambda>x. if x = JNull then Inr [] else ToString rt x) xs)") auto
next
  case (JNum n)
  then show ?case by (cases n) simp_all
qed simp_all

lemma ToString_opt_stringable:
  "(\<exists>t. ToString_opt rt v = Inr t) = stringable_opt v"
  by (cases v) (simp_all add: ToString_opt_def stringable_opt_def ToString_stringable)

section \<open>The query cycle\<close>

lemma try_block_cases:
  "try_block rt (Rejected e) = Inl e"
  "try_block rt (Resolved JNull) =
     Inl \<lparr>err_response = None, err_message = typeErrorMessage rt (js ''sql'')\<rparr>"
  "d \<noteq> JNull \<Longrightarrow> try_block rt (Resolved d) = Inr (d, opt_prop (Some d) (js ''sql''))"
  by (simp_all add: try_block_def read_prop_def)

lemma resume_caught:
  "try_block rt out = Inl e \<Longrightarrow>
     handleSubmit_resume rt req out s =
       Inr (s\<lparr>history := history s @
                 [Answer \<lparr>a_question = None, a_sql = None, a_data = None, a_columns = None,
                          a_error = query_error e\<rparr>],
              loading := False\<rparr>)"
  by (simp add: handleSubmit_resume_def catch_block_def)

lemma resume_completed:
  assumes "d \<noteq> JNull" and "ToString_opt rt (opt_prop (Some d) (js ''sql'')) = Inr sqlText"
  shows "handleSubmit_resume rt req (Resolved d) s =
       Inr (s\<lparr>history := history s @
                 [Answer \<lparr>a_question = Some (rq_question req),
                          a_sql = opt_prop (Some d) (js ''sql''),
                          a_data = opt_prop (Some d) (js ''data''),
                          a_columns = opt_prop (Some d) (js ''columns''),
                          a_error = opt_prop (Some d) (js ''error'')\<rparr>],
              conversationHistory := conversationHistory s @
                 [\<lparr>role = User, content = rq_question req\<rparr>,
                  \<lparr>role = Assistant,
                   content = js ''I searched for: '' @ rq_question req @
                             js ''. The SQL query was: '' @ sqlText\<rparr>],
              loading := False\<rparr>)"
  using assms
  by (simp add: handleSubmit_resume_def try_block_cases context_updater_def history_updater_def)



lemma sql_converts_iff:
  "sql_converts (Resolved d) = (\<exists>t. ToString_opt rt (opt_prop (Some d) (js ''sql'')) = Inr t)"
  by (simp add: sql_converts_def ToString_opt_stringable)

lemma resume_when_converts:
  assumes "sql_converts out"
  shows "\<exists>s' a. handleSubmit_resume rt req out s = Inr s' \<and>
           history s' = history s @ [Answer a] \<and> \<not> loading s'"
proof (cases out)
  case (Rejected e)
  then show ?thesis by (simp add: resume_caught try_block_cases)
next
  case (Resolved d)
  show ?thesis
  proof (cases "d = JNull")
    case True
    then show ?thesis using Resolved by (simp add: resume_caught try_block_cases)
  next
    case False
    obtain t where "ToString_opt rt (opt_prop (Some d) (js ''sql'')) = Inr t"
      using assms Resolved sql_converts_iff by blast
    then show ?thesis using Resolved False by (simp add: resume_completed)
  qed
qed






text \<open>
  C2. A submit of the form, by a click on the button or by the Enter key, is a no-op
  whenever \<open>loading\<close> holds or the input is empty after trimming: no request is sent and
  the state (transcript, context, input and \<open>loading\<close>) is unchanged. An input that is
  empty after trimming is refused by the handler itself as well. When neither holds, the
  submit runs the handler, which issues a request and sets \<open>loading\<close>.
\<close>

theorem submit_guard:
  "(loading s \<or> trim (question s) = [] \<longrightarrow> form_submit g s = (s, None)) \<and>
   (trim (question s) = [] \<longrightarrow> handleSubmit s = (s, None)) \<and>
   (\<not> loading s \<and> trim (question s) \<noteq> [] \<longrightarrow>
      form_submit g s = handleSubmit s \<and>
      (\<exists>s1 req. handleSubmit s = (s1, Some req) \<and> loading s1))"
  by (cases g) (auto simp: form_submit_def form_of_def handleSubmit_def Let_def)

theorem submit_guard_witness:
  "loading blank_busy_session \<and> trim (question blank_busy_session) = [] \<and>
   form_submit ClickSubmit blank_busy_session = (blank_busy_session, None) \<and>
   handleSubmit blank_busy_session = (blank_busy_session, None) \<and>
   loading busy_session \<and>
   form_submit ClickSubmit busy_session = (busy_session, None) \<and>
   form_submit PressEnter busy_session = (busy_session, None) \<and>
   loading milk_session = False \<and>
   form_submit PressEnter milk_session =
     (\<lparr>history = [Question (js ''cheapestMilk'')], conversationHistory = [], question = [],
       loading = True\<rparr>,
      Some \<lparr>rq_question = js ''cheapestMilk'', rq_conversation_history = []\<rparr>)"
proof -
  have m: "handleSubmit milk_session =
     (\<lparr>history = [Question (js ''cheapestMilk'')], conversationHistory = [], question = [],
       loading = True\<rparr>,
      Some \<lparr>rq_question = js ''cheapestMilk'', rq_conversation_history = []\<rparr>)"
    by (simp add: handleSubmit_def milk_session_def init_session_def trim_def isWhiteSpace_def
          js_simps Let_def)
  have t: "trim (question milk_session) \<noteq> []" "\<not> loading milk_session"
    by (simp_all add: milk_session_def init_session_def trim_def isWhiteSpace_def js_simps)
  have b: "trim (question blank_busy_session) = []" "loading blank_busy_session" "loading busy_session"
    by (simp_all add: blank_busy_session_def busy_session_def trim_def isWhiteSpace_def js_simps)
  show ?thesis
    using submit_guard [of blank_busy_session ClickSubmit]
          submit_guard [of busy_session ClickSubmit]
          submit_guard [of busy_session PressEnter]
          submit_guard [of milk_session PressEnter]
          m t b
    by simp
qed





section \<open>The shape of the context\<close>

lemma pairs_append:
  "user_assistant_pairs ts \<Longrightarrow> role u = User \<Longrightarrow> role a = Assistant \<Longrightarrow>
     user_assistant_pairs (ts @ [u, a])"
  by (induction ts rule: user_assistant_pairs.induct) simp_all

lemma pairs_shape:
  "user_assistant_pairs ts \<Longrightarrow>
     even (length ts) \<and> map role ts = concat (replicate (length ts div 2) [User, Assistant])"
  by (induction ts rule: user_assistant_pairs.induct) simp_all

lemma resume_context:
  assumes "handleSubmit_resume rt req out s = Inr s'"
  shows "conversationHistory s' = conversationHistory s \<or>
         (\<exists>u a. role u = User \<and> role a = Assistant \<and>
                conversationHistory s' = conversationHistory s @ [u, a])"
proof (cases "try_block rt out")
  case (Inl e)
  then show ?thesis using assms by (auto simp: resume_caught)
next
  case (Inr p)
  then show ?thesis using assms
    by (cases p)
       (auto simp: handleSubmit_resume_def context_updater_def split: sum.splits)
qed

lemma handleSubmit_context:
  "conversationHistory (fst (handleSubmit s)) = conversationHistory s"
  by (simp add: handleSubmit_def Let_def)

lemma step_context:
  assumes "step rt e s = Inr s'"
  shows "conversationHistory s' = conversationHistory s \<or>
   (\<exists>u a. role u = User \<and> role a = Assistant \<and>
          conversationHistory s' = conversationHistory s @ [u, a]) \<or>
   conversationHistory s' = []"
proof (cases e)
  case (SetQuestion q)
  then show ?thesis using assms by auto
next
  case Submit
  then show ?thesis using assms handleSubmit_context [of s] by auto
next
  case (QueryDone req out)
  then show ?thesis using assms resume_context [of rt req out s s'] by auto
next
  case NewConversation
  then show ?thesis using assms by (auto simp: handleNewConversation_def)
qed

lemma step_unmounts:
  assumes "step rt e s = Inl x"
  shows "\<exists>req out. e = QueryDone req out \<and> \<not> sql_converts out"
proof (cases e)
  case (QueryDone req out)
  have "\<not> sql_converts out"
  proof
    assume "sql_converts out"
    from resume_when_converts [OF this, of rt req s] show False
      using assms QueryDone by auto
  qed
  then show ?thesis using QueryDone by blast
qed (use assms in auto)

lemma step_pairs:
  "step rt e s = Inr s' \<Longrightarrow> user_assistant_pairs (conversationHistory s) \<Longrightarrow>
     user_assistant_pairs (conversationHistory s')"
  using step_context [of rt e s s'] by (auto simp: pairs_append)

lemma run_pairs:
  "run rt evs s = Inr s' \<Longrightarrow> user_assistant_pairs (conversationHistory s) \<Longrightarrow>
     user_assistant_pairs (conversationHistory s')"
proof (induction evs arbitrary: s)
  case Nil
  then show ?case by simp
next
  case (Cons e es)
  then obtain s1 where s1: "step rt e s = Inr s1" "run rt es s1 = Inr s'"
    by (cases "step rt e s") auto
  then show ?case using Cons.IH [OF s1(2)] step_pairs [OF s1(1)] Cons.prems(2) by blast
qed

text \<open>
  C10. In every state reached from the initial session by any sequence of operations
  (typing, submitting, the end of a request with any outcome, a new conversation), the
  context consists of consecutive (user, assistant) pairs: its length is even and its
  roles are user, assistant, user, assistant, ... Every operation that ends in a state
  leaves the context unchanged, appends exactly one (user, assistant) pair, or resets it
  to empty. The one operation that ends in no state, the tree being unmounted, is the end
  of a request whose \<open>sql\<close> value has no string form.
\<close>

theorem context_is_user_assistant_pairs:
  "(run rt evs init_session = Inr s \<longrightarrow>
      user_assistant_pairs (conversationHistory s) \<and>
      even (length (conversationHistory s)) \<and>
      map role (conversationHistory s) =
        concat (replicate (length (conversationHistory s) div 2) [User, Assistant])) \<and>
   (step rt e s0 = Inr s1 \<longrightarrow>
      conversationHistory s1 = conversationHistory s0 \<or>
      (\<exists>u a. role u = User \<and> role a = Assistant \<and>
             conversationHistory s1 = conversationHistory s0 @ [u, a]) \<or>
      conversationHistory s1 = []) \<and>
   (step rt e s0 = Inl x \<longrightarrow> (\<exists>req out. e = QueryDone req out \<and> \<not> sql_converts out))"
proof -
  have "user_assistant_pairs (conversationHistory s)" if "run rt evs init_session = Inr s"
    using run_pairs [OF that] by (simp add: init_session_def)
  then show ?thesis using pairs_shape step_context step_unmounts by blast
qed

lemma two_queries_run:
  "run sample_runtime two_queries init_session =
     Inr \<lparr>history =
            [Question (js ''cheapestMilk''), Answer milk_answer, Question (js ''pasta''),
             Answer \<lparr>a_question = None, a_sql = None, a_data = None, a_columns = None,
                      a_error = Some (JStr (js ''Network Error''))\<rparr>],
          conversationHistory =
            [\<lparr>role = User, content = js ''cheapestMilk''\<rparr>,
             \<lparr>role = Assistant,
              content = js ''I searched for: cheapestMilk. The SQL query was: SELECT ...''\<rparr>],
          question = [], loading = False\<rparr>"
  by (simp add: two_queries_def init_session_def handleSubmit_def handleSubmit_resume_def
        try_block_def catch_block_def read_prop_def context_updater_def history_updater_def
        ToString_opt_def query_error_def js_or_def truthy_opt_def network_error_def
        pasta_request_def milk_response_def milk_answer_def trim_def isWhiteSpace_def
        js_simps Let_def)

theorem context_is_user_assistant_pairs_witness:
  "map_sum id (\<lambda>s. map role (conversationHistory s))
     (run sample_runtime two_queries init_session) = Inr [User, Assistant] \<and>
   step sample_runtime (QueryDone pasta_request (Resolved toString_response)) second_session
     = Inl \<lparr>err_response = None, err_message = js ''TypeError: toString''\<rparr>"
proof -
  have "step sample_runtime (QueryDone pasta_request (Resolved toString_response))
                   second_session
     = Inl \<lparr>err_response = None, err_message = js ''TypeError: toString''\<rparr>"
    by (simp add: handleSubmit_resume_def try_block_def read_prop_def context_updater_def
          ToString_opt_def toString_response_def toString_object_def sample_runtime_def
          js_simps)
  then show ?thesis
    using context_is_user_assistant_pairs
            [of sample_runtime two_queries
                "the_Inr (run sample_runtime two_queries init_session)"]
    unfolding two_queries_run by simp
qed

section \<open>The cell formatter\<close>

lemma isDigit_digitChar: "d < 10 \<Longrightarrow> isDigit (digitChar d)"
proof -
  assume "d < 10"
  then have "d \<in> {0, 1, 2, 3, 4, 5, 6, 7, 8, 9}" by auto
  then show ?thesis by (auto simp: isDigit_def digitChar_def)
qed

lemma digits_all_digit: "list_all isDigit (digits n)"
proof (induction n rule: digits.induct)
  case (1 n)
  show ?case
  proof (cases "n < 10")
    case True
    then show ?thesis by (subst digits.simps) (simp add: isDigit_digitChar)
  next
    case False
    with 1 show ?thesis by (subst digits.simps) (simp add: isDigit_digitChar)
  qed
qed

lemma minus_not_digit: "isDigit c \<Longrightarrow> [c] \<noteq> js ''-''"
  by (auto simp: isDigit_def js_def)

lemma length_two: "length b = 2 \<Longrightarrow> \<exists>d1 d2. b = [d1, d2]"
  by (auto simp: length_Suc_conv numeral_2_eq_2)

lemma split_last_two:
  assumes "3 \<le> length m"
  shows "\<exists>a d1 d2. a \<noteq> [] \<and> take (length m - 2) m = a \<and> drop (length m - 2) m = [d1, d2]"
proof -
  have "length (drop (length m - 2) m) = 2" using assms by simp
  then obtain d1 d2 where "drop (length m - 2) m = [d1, d2]"
    using length_two by blast
  moreover have "take (length m - 2) m \<noteq> []" using assms by auto
  ultimately show ?thesis by blast
qed

lemma fixed_body:
  assumes "list_all isDigit m" and "3 \<le> length m"
  shows "two_fraction_digits (take (length m - 2) m @ js ''.'' @ drop (length m - 2) m)"
    and "two_fraction_digits (js ''-'' @ take (length m - 2) m @ js ''.'' @ drop (length m - 2) m)"
proof -
  obtain a d1 d2 where a: "a \<noteq> []" "take (length m - 2) m = a" "drop (length m - 2) m = [d1, d2]"
    using split_last_two [OF assms(2)] by blast
  have m: "m = a @ [d1, d2]" using a(2,3) append_take_drop_id [of "length m - 2" m] by simp
  have da: "list_all isDigit a" and d1: "isDigit d1" and d2: "isDigit d2"
    using assms(1) unfolding m by simp_all
  obtain c cs where acs: "a = c # cs" using a(1) by (cases a) auto
  have "isDigit c" using da acs by simp
  then have c: "[c] \<noteq> js ''-''" by (rule minus_not_digit)
  have dot: "js ''.'' = [0x2E]" by (simp add: js_def)
  have minus: "js ''-'' = [0x2D]" by (simp add: js_def)
  show "two_fraction_digits (take (length m - 2) m @ js ''.'' @ drop (length m - 2) m)"
    using c da d1 d2 unfolding a(2,3) two_fraction_digits_def acs dot minus
    by simp
  show "two_fraction_digits (js ''-'' @ take (length m - 2) m @ js ''.'' @ drop (length m - 2) m)"
    using da d1 d2 unfolding a(2,3) two_fraction_digits_def acs dot minus
    by simp
qed

lemma padded_digits:
  "list_all isDigit (if length (digits n) \<le> 2 then replicate (3 - length (digits n)) (digitChar 0) @ digits n else digits n)
   \<and> 3 \<le> length (if length (digits n) \<le> 2 then replicate (3 - length (digits n)) (digitChar 0) @ digits n else digits n)"
  using digits_all_digit [of n] isDigit_digitChar [of 0]
  by (auto simp: list_all_iff)

lemma toFixed2_fixed:
  assumes "\<bar>x\<bar> < 10 ^ 21"
  shows "two_fraction_digits (toFixed2 rt (Fin x))"
proof -
  define m where "m = (if length (digits (nat \<lfloor>\<bar>x\<bar> * 100 + 1 / 2\<rfloor>)) \<le> 2
      then replicate (3 - length (digits (nat \<lfloor>\<bar>x\<bar> * 100 + 1 / 2\<rfloor>))) (digitChar 0) @ digits (nat \<lfloor>\<bar>x\<bar> * 100 + 1 / 2\<rfloor>)
      else digits (nat \<lfloor>\<bar>x\<bar> * 100 + 1 / 2\<rfloor>))"
  have pd: "list_all isDigit m" "3 \<le> length m"
    using padded_digits [of "nat \<lfloor>\<bar>x\<bar> * 100 + 1 / 2\<rfloor>"] unfolding m_def by blast+
  have eq: "toFixed2 rt (Fin x) = (if x < 0 then js ''-'' else []) @ take (length m - 2) m @ js ''.'' @ drop (length m - 2) m"
    using assms unfolding toFixed2_def m_def by (simp add: Let_def)
  show ?thesis unfolding eq using fixed_body [OF pd] by simp
qed

lemma digits_690: "digits 690 = js ''690''"
  by code_simp

lemma round_6_9: "nat \<lfloor>\<bar>3884354678607053 / 2 ^ 49 :: rat\<bar> * 100 + 1 / 2\<rfloor> = 690"
  by code_simp

lemma toFixed2_6_9: "toFixed2 rt double_6_9 = js ''6.90''"
proof -
  have small: "\<not> 10 ^ 21 \<le> \<bar>3884354678607053 / 2 ^ 49 :: rat\<bar>" by simp
  have pos: "\<not> (3884354678607053 / 2 ^ 49 :: rat) < 0" by simp
  show ?thesis
    unfolding toFixed2_def double_6_9_def
    by (simp only: jsnum.case Let_def small pos if_False round_6_9 digits_690)
       (simp add: js_simps)
qed

lemma price_not_date: "isPrice c \<Longrightarrow> \<not> isDate c"
  by (auto simp: isPrice_def isDate_def js_simps)

lemma formatCell_null: "formatCell rt JNull colName = Inr (js ''N/A'')"
  by (simp add: formatCell_def)

lemma formatCell_price:
  "isPrice colName \<Longrightarrow> formatCell rt (JNum n) colName = Inr (toFixed2 rt n)"
  by (simp add: formatCell_def is_number_def number_of_def)

lemma isPrice_ItemPrice: "isPrice (Some (JStr (js ''ItemPrice'')))"
  by (simp add: isPrice_def)

text \<open>
  C5, amended. A null cell formats to \<open>N/A\<close> in every column. In a price column, every
  finite number of magnitude below \<open>10\<^sup>2\<^sup>1\<close> formats to a fixed-point string with exactly
  two fractional digits. The number that the JSON text \<open>6.9\<close> denotes formats to \<open>6.90\<close> in
  the column \<open>ItemPrice\<close>.
\<close>

theorem formatCell_sentinel_and_price:
  "formatCell rt JNull colName = Inr (js ''N/A'') \<and>
   (isPrice colName \<and> \<bar>x\<bar> < 10 ^ 21 \<longrightarrow>
      (\<exists>str. formatCell rt (JNum (Fin x)) colName = Inr str \<and> two_fraction_digits str)) \<and>
   formatCell rt (JNum double_6_9) (Some (JStr (js ''ItemPrice''))) = Inr (js ''6.90'')"
  using formatCell_null [of rt colName] formatCell_price [of colName rt "Fin x"]
        toFixed2_fixed [of x rt]
        formatCell_price [OF isPrice_ItemPrice, of rt double_6_9] toFixed2_6_9 [of rt]
  by simp

theorem formatCell_sentinel_and_price_witness:
  "isPrice (Some (JStr (js ''price''))) \<and> \<bar>29 / 4 :: rat\<bar> < 10 ^ 21 \<and>
   formatCell sample_runtime (JNum (Fin (29 / 4))) (Some (JStr (js ''price''))) = Inr (js ''7.25'') \<and>
   two_fraction_digits (js ''7.25'') \<and>
   formatCell sample_runtime JNull (Some (JStr (js ''price''))) = Inr (js ''N/A'')"
proof -
  have p: "isPrice (Some (JStr (js ''price'')))" by (simp add: isPrice_def js_simps)
  have v: "toFixed2 sample_runtime (Fin (29 / 4)) = js ''7.25''"
    unfolding toFixed2_def by code_simp
  show ?thesis
    using p formatCell_sentinel_and_price [of sample_runtime "Some (JStr (js ''price''))" "29 / 4"]
    by (simp add: formatCell_price v)
qed

text \<open>
  C5, as the claim states it, fails for a number that \<open>toFixed\<close> does not print in
  fixed-point form: \<open>1e21\<close>, which a JSON payload can carry, formats to \<open>1e+21\<close> in the
  column \<open>ItemPrice\<close> (and NaN, also of type number, to \<open>NaN\<close>).
\<close>

theorem toFixed_leaves_fixed_point:
  "isPrice (Some (JStr (js ''ItemPrice''))) \<and>
   formatCell sample_runtime (JNum (Fin (10 ^ 21))) (Some (JStr (js ''ItemPrice'')))
     = Inr (js ''1e+21'') \<and>
   \<not> two_fraction_digits (js ''1e+21'') \<and>
   formatCell sample_runtime (JNum NaN) (Some (JStr (js ''ItemPrice''))) = Inr (js ''NaN'') \<and>
   \<not> two_fraction_digits (js ''NaN'')"
proof -
  have a: "toFixed2 sample_runtime (Fin (10 ^ 21)) = js ''1e+21''"
    unfolding toFixed2_def sample_runtime_def by (simp add: Let_def)
  have b: "toFixed2 sample_runtime NaN = js ''NaN''"
    by (simp add: toFixed2_def)
  have c: "\<not> two_fraction_digits (js ''1e+21'')" "\<not> two_fraction_digits (js ''NaN'')"
    by (simp_all add: two_fraction_digits_def js_simps isDigit_def)
  have d: "formatCell sample_runtime (JNum (Fin (10 ^ 21))) (Some (JStr (js ''ItemPrice'')))
             = Inr (js ''1e+21'')"
    by (simp only: formatCell_price [OF isPrice_ItemPrice] a)
  have e: "formatCell sample_runtime (JNum NaN) (Some (JStr (js ''ItemPrice''))) = Inr (js ''NaN'')"
    by (simp only: formatCell_price [OF isPrice_ItemPrice] b)
  show ?thesis
    using isPrice_ItemPrice c d e by blast
qed

text \<open>
  C6, as the claim states it, fails: \<open>String(cell)\<close> throws on a value that has no
  string form, and neither call of it is inside a \<open>try\<close>. The cell \<open>{"toString": 1}\<close>
  makes the callback throw in a plain column, and in a timestamp column as well, where
  the fallback runs in the \<open>catch\<close> block.
\<close>

theorem formatCell_throws:
  "formatCell sample_runtime toString_object (Some (JStr (js ''StoreName''))) =
     Inl \<lparr>err_response = None, err_message = js ''TypeError: toString''\<rparr> \<and>
   formatCell sample_runtime toString_object (Some (JStr (js ''LastUpdate''))) =
     Inl \<lparr>err_response = None, err_message = js ''TypeError: toString''\<rparr>"
  by (simp add: formatCell_def isPrice_def isDate_def is_number_def try_catch_def
        toString_object_def sample_runtime_def js_simps)

lemma formatCell_branches:
  "cell \<noteq> JNull \<Longrightarrow> \<not> (isPrice colName \<and> is_number cell) \<Longrightarrow> \<not> isDate colName \<Longrightarrow>
     formatCell rt cell colName = ToString rt cell"
  "cell \<noteq> JNull \<Longrightarrow> isDate colName \<Longrightarrow> formatDate rt cell = Inr shown \<Longrightarrow>
     formatCell rt cell colName = Inr shown"
  "cell \<noteq> JNull \<Longrightarrow> isDate colName \<Longrightarrow> formatDate rt cell = Inl e \<Longrightarrow>
     formatCell rt cell colName = ToString rt cell"
  by (auto simp: formatCell_def try_catch_def dest: price_not_date)

lemma formatCell_returns:
  assumes "stringable cell"
  shows "\<exists>str. formatCell rt cell colName = Inr str"
proof -
  obtain t where t: "ToString rt cell = Inr t"
    using assms ToString_stringable by blast
  show ?thesis
    by (cases "formatDate rt cell") (auto simp: formatCell_def try_catch_def t)
qed

text \<open>
  C6, amended. For every cell value that has a string form (every number, string,
  boolean and null, and every array and object that holds no object with an own key
  \<open>toString\<close> where \<open>String\<close> would reach it), every column name and every behaviour of the
  date library, the cell formatter returns a display string and no exception leaves it.
  In a timestamp column, a non-null value that the date library formats is shown as
  formatted, and one on which parsing or formatting throws falls back to the value's
  literal string form, \<open>String(cell)\<close>; in a column that is neither a timestamp column nor
  a price column holding a number, the result is \<open>String(cell)\<close> as well. Where
  \<open>String(cell)\<close> throws, the formatter throws.
\<close>

theorem formatCell_total:
  "(stringable cell \<longrightarrow> (\<exists>str. formatCell rt cell colName = Inr str)) \<and>
   (stringable (JBool b) \<and> stringable (JNum n) \<and> stringable (JStr t) \<and> stringable JNull) \<and>
   (isDate colName \<and> cell \<noteq> JNull \<and> formatDate rt cell = Inl e \<longrightarrow>
      formatCell rt cell colName = ToString rt cell) \<and>
   (isDate colName \<and> cell \<noteq> JNull \<and> formatDate rt cell = Inr shown \<longrightarrow>
      formatCell rt cell colName = Inr shown) \<and>
   (\<not> isDate colName \<and> cell \<noteq> JNull \<and> \<not> (isPrice colName \<and> is_number cell) \<longrightarrow>
      formatCell rt cell colName = ToString rt cell) \<and>
   ((\<exists>str. ToString rt cell = Inr str) = stringable cell)"
  using formatCell_returns [of cell rt colName] formatCell_branches [of cell colName rt]
        ToString_stringable [of rt cell]
  by simp

theorem formatCell_total_witness:
  "isDate (Some (JStr (js ''LastUpdate''))) \<and>
   stringable (JStr (js ''not a date'')) \<and>
   formatDate sample_runtime (JStr (js ''not a date'')) =
     Inl \<lparr>err_response = None, err_message = js ''Invalid time value''\<rparr> \<and>
   formatCell sample_runtime (JStr (js ''not a date'')) (Some (JStr (js ''LastUpdate'')))
     = Inr (js ''not a date'') \<and>
   formatDate sample_runtime (JStr (js ''2024-01-05T10:30:00'')) = Inr (js ''05/01/2024 10:30'') \<and>
   formatCell sample_runtime (JStr (js ''2024-01-05T10:30:00'')) (Some (JStr (js ''LastUpdate'')))
     = Inr (js ''05/01/2024 10:30'') \<and>
   isDate (Some (JStr (js ''StoreName''))) = False \<and>
   formatCell sample_runtime (JArr [JNull, JBool True, JObj []]) (Some (JStr (js ''StoreName'')))
     = Inr (js '',true,[object Object]'')"
proof -
  have d: "isDate (Some (JStr (js ''LastUpdate'')))" "\<not> isDate (Some (JStr (js ''StoreName'')))"
          "\<not> isPrice (Some (JStr (js ''StoreName'')))"
    by (simp_all add: isDate_def isPrice_def js_simps)
  have f: "formatDate sample_runtime (JStr (js ''not a date'')) =
     Inl \<lparr>err_response = None, err_message = js ''Invalid time value''\<rparr>"
     "formatDate sample_runtime (JStr (js ''2024-01-05T10:30:00'')) = Inr (js ''05/01/2024 10:30'')"
    by (simp_all add: sample_runtime_def js_simps)
  have a: "ToString sample_runtime (JArr [JNull, JBool True, JObj []]) =
             Inr (js '',true,[object Object]'')"
    by (simp add: js_simps)
  show ?thesis
    using d f a
      formatCell_total [of "JStr (js ''not a date'')" sample_runtime
                "Some (JStr (js ''LastUpdate''))" True NaN "[]"
                "\<lparr>err_response = None, err_message = js ''Invalid time value''\<rparr>" "[]"]
      formatCell_total [of "JStr (js ''2024-01-05T10:30:00'')" sample_runtime
                "Some (JStr (js ''LastUpdate''))" True NaN "[]"
                "\<lparr>err_response = None, err_message = js ''Invalid time value''\<rparr>"
                "js ''05/01/2024 10:30''"]
      formatCell_total [of "JArr [JNull, JBool True, JObj []]" sample_runtime
                "Some (JStr (js ''StoreName''))" True NaN "[]"
                "\<lparr>err_response = None, err_message = js ''Invalid time value''\<rparr>" "[]"]
    by simp
qed

section \<open>Rendering an answer\<close>

text \<open>
  C8, as the claim states it, fails when both the result set and the error are absent:
  the guard \<open>item.data &&\<close> then keeps the "no results" box out, as it keeps the table out,
  and nothing is shown.
\<close>

theorem render_without_data:
  "truthy_opt (a_error bare_answer) = False \<and> a_data bare_answer = None \<and>
   render_answer sample_runtime bare_answer = Inr (Fragment None False)"
  by (simp add: bare_answer_def render_answer_def truthy_opt_def truthy_value_def)

text \<open>
  C8, amended. For every answer with no error whose result set is present and has zero
  rows, the render shows the "no results" box, no table and no error box. For every
  answer with no error whose result set is absent (undefined or null), the render shows
  none of the three.
\<close>

theorem render_empty_result:
  "(\<not> truthy_opt (a_error item) \<and> a_data item = Some (JArr []) \<longrightarrow>
      render_answer rt item = Inr (Fragment None True)) \<and>
   (\<not> truthy_opt (a_error item) \<and> (a_data item = None \<or> a_data item = Some JNull) \<longrightarrow>
      render_answer rt item = Inr (Fragment None False))"
  by (auto simp: render_answer_def truthy_opt_def truthy_value_def gt_zero_def eq_zero_def
        split: option.splits)

theorem render_empty_result_witness:
  "\<not> truthy_opt (a_error empty_answer) \<and> a_data empty_answer = Some (JArr []) \<and>
   render_answer sample_runtime empty_answer = Inr (Fragment None True) \<and>
   \<not> truthy_opt (a_error bare_answer) \<and> a_data bare_answer = None \<and>
   render_answer sample_runtime bare_answer = Inr (Fragment None False)"
  using render_empty_result [of empty_answer sample_runtime]
        render_empty_result [of bare_answer sample_runtime]
  by (simp add: empty_answer_def bare_answer_def truthy_opt_def)

lemma milk_table:
  "render_answer sample_runtime milk_answer =
     Inr (Fragment
            (Some \<lparr>thead = [js ''StoreName'', js ''ItemPrice''],
                   tbody = [[js ''Store A'', js ''6.90''], [js ''Store B'', js ''7.25'']]\<rparr>)
            False)"
  unfolding render_answer_def render_table_def render_row_def header_cell_def
    milk_answer_def
  by code_simp

section \<open>The control panel\<close>

lemma run_callback_status:
  "status_of k (run_callback j p) = (if k = j then Idle else status_of k p)"
  by (cases k; cases j) simp_all

lemma fold_callbacks_status:
  "status_of k (fold (\<lambda>tm. run_callback (callback tm)) ts p) =
     (if k \<in> callback ` set ts then Idle else status_of k p)"
  by (induction ts arbitrary: p) (auto simp: run_callback_status)

lemma elapse_status:
  "status_of k (elapse dt p) =
     (if k \<in> callback ` {tm \<in> set (timers p). due tm \<le> clock p + dt} then Idle
      else status_of k p)"
proof -
  have "status_of k (elapse dt p) =
          status_of k (fold (\<lambda>tm. run_callback (callback tm))
                            (filter (\<lambda>tm. due tm \<le> clock p + dt) (timers p)) p)"
    by (cases k) (simp_all add: elapse_def Let_def)
  then show ?thesis by (simp add: fold_callbacks_status)
qed

lemma resume_timers:
  "timers (trigger_resume rt k out q) = timers q @ [\<lparr>due = clock q + 3000, callback = k\<rparr>]"
  "clock (trigger_resume rt k out q) = clock q"
  by (cases k; cases out;
      simp add: triggerScrape_resume_def triggerImport_resume_def setTimeout_def read_prop_def)+

lemma resume_status:
  "status_of k (trigger_resume rt k out q) = Success \<or>
   status_of k (trigger_resume rt k out q) = Error"
  by (cases k; cases out;
      simp add: triggerScrape_resume_def triggerImport_resume_def setTimeout_def read_prop_def)

text \<open>
  C3, amended. No revert timer is ever cancelled. Whenever a pending revert timer
  becomes due, whichever trigger set it, the status of its job becomes idle. Only when no
  revert timer of the job is pending as a trigger is answered does that trigger's own
  timer alone govern: the job's status, success or error, stays for the 3000 ms before the
  timer is due and is idle from then on.
\<close>

theorem revert_timers_are_never_cancelled:
  "(tm \<in> set (timers p) \<and> due tm \<le> clock p + dt \<longrightarrow>
      status_of (callback tm) (elapse dt p) = Idle) \<and>
   ((\<forall>t \<in> set (timers q). callback t \<noteq> k) \<longrightarrow>
      status_of k (trigger_resume rt k out q) \<noteq> Idle \<and>
      status_of k (elapse dt (trigger_resume rt k out q)) =
        (if dt < 3000 then status_of k (trigger_resume rt k out q) else Idle))"
proof -
  have one: "tm \<in> set (timers p) \<and> due tm \<le> clock p + dt \<longrightarrow>
      status_of (callback tm) (elapse dt p) = Idle"
    by (auto simp: elapse_status)
  have two: "status_of k (trigger_resume rt k out q) \<noteq> Idle"
    using resume_status [of k rt out q] by auto
  have three: "status_of k (elapse dt (trigger_resume rt k out q)) =
        (if dt < 3000 then status_of k (trigger_resume rt k out q) else Idle)"
    if none: "\<forall>t \<in> set (timers q). callback t \<noteq> k"
  proof -
    let ?new = "\<lparr>due = clock q + 3000, callback = k\<rparr>"
    let ?due = "{tm \<in> set (timers q @ [?new]). due tm \<le> clock q + dt}"
    have "k \<in> callback ` ?due \<longleftrightarrow> 3000 \<le> dt"
    proof
      assume "k \<in> callback ` ?due"
      then obtain tm where tm: "tm \<in> set (timers q @ [?new])" "due tm \<le> clock q + dt"
          "callback tm = k"
        by auto
      with none have "tm = ?new" by auto
      with tm(2) show "3000 \<le> dt" by simp
    next
      assume "3000 \<le> dt"
      then have "?new \<in> ?due" by simp
      then have "callback ?new \<in> callback ` ?due" by (rule imageI)
      then show "k \<in> callback ` ?due" by simp
    qed
    then show ?thesis
      by (simp add: elapse_status resume_timers)
  qed
  show ?thesis using one two three by blast
qed

lemma retriggered_eq:
  "retriggered =
     \<lparr>health = JNull, scrapeStatus = Success, importStatus = Idle,
      message = Some (JStr (js ''Scraper started'')),
      timers = [\<lparr>due = 3000, callback = Scrape\<rparr>, \<lparr>due = 5000, callback = Scrape\<rparr>],
      clock = 2000\<rparr>"
  by (simp add: retriggered_def triggerScrape_resume_def triggerScrape_def init_panel_def
      elapse_def setTimeout_def read_prop_def started_def Let_def)

text \<open>
  C3, as the claim states it, fails. Scrape is accepted at time 0 and, triggered again,
  accepted at 2000, which sets the status to success and a timer due at 5000. At 3000 the
  timer of the first cycle runs and the status is idle, with the second cycle's timer
  still pending.
\<close>

theorem stale_timer_reverts_newer_status:
  "scrapeStatus retriggered = Success \<and>
   timers retriggered = [\<lparr>due = 3000, callback = Scrape\<rparr>, \<lparr>due = 5000, callback = Scrape\<rparr>] \<and>
   clock retriggered = 2000 \<and>
   scrapeStatus retriggered_later = Idle \<and>
   clock retriggered_later = 3000 \<and>
   timers retriggered_later = [\<lparr>due = 5000, callback = Scrape\<rparr>]"
  by (simp add: retriggered_later_def retriggered_eq elapse_def Let_def)

theorem revert_timers_are_never_cancelled_witness:
  "\<lparr>due = 3000, callback = Scrape\<rparr> \<in> set (timers retriggered) \<and>
   3000 \<le> clock retriggered + 1000 \<and>
   status_of Scrape (elapse 1000 retriggered) = Idle \<and>
   timers init_panel = [] \<and>
   status_of Import (trigger_resume sample_runtime Import (Rejected server_error) init_panel) = Error \<and>
   status_of Import (elapse 2999 (trigger_resume sample_runtime Import (Rejected server_error) init_panel)) = Error \<and>
   status_of Import (elapse 3000 (trigger_resume sample_runtime Import (Rejected server_error) init_panel)) = Idle"
proof -
  have e: "status_of Import (trigger_resume sample_runtime Import (Rejected server_error) init_panel) = Error"
    by (simp add: triggerImport_resume_def setTimeout_def)
  have t: "\<forall>t \<in> set (timers init_panel). callback t \<noteq> Import"
    by (simp add: init_panel_def)
  show ?thesis
    using revert_timers_are_never_cancelled
            [of "\<lparr>due = 3000, callback = Scrape\<rparr>" retriggered 1000 init_panel Import
                sample_runtime "Rejected server_error"]
          revert_timers_are_never_cancelled
            [of "\<lparr>due = 3000, callback = Scrape\<rparr>" retriggered 2999 init_panel Import
                sample_runtime "Rejected server_error"]
          revert_timers_are_never_cancelled
            [of "\<lparr>due = 3000, callback = Scrape\<rparr>" retriggered 3000 init_panel Import
                sample_runtime "Rejected server_error"]
          e t
    by (simp add: retriggered_eq init_panel_def)
qed

lemma elapse_timers: "set (timers (elapse dt p)) \<subseteq> set (timers p)"
  by (auto simp: elapse_def Let_def)

lemma elapse_keeps_status:
  "\<forall>t \<in> set (timers p). callback t \<noteq> k \<Longrightarrow> status_of k (elapse dt p) = status_of k p"
  by (auto simp: elapse_status)

lemma scrape_cycle_frame:
  assumes "\<forall>t \<in> set (timers p). callback t = Scrape"
  shows "importStatus (elapse dt0 (triggerScrape p)) = importStatus p"
    and "importStatus (elapse dt (triggerScrape_resume rt out (elapse dt0 (triggerScrape p))))
           = importStatus p"
proof -
  let ?p1 = "triggerScrape p"
  let ?p2 = "elapse dt0 ?p1"
  let ?p3 = "trigger_resume rt Scrape out ?p2"
  have t1: "\<forall>t \<in> set (timers ?p1). callback t \<noteq> Import"
    using assms by (simp add: triggerScrape_def)
  then have t2: "\<forall>t \<in> set (timers ?p2). callback t \<noteq> Import"
    using elapse_timers [of dt0 ?p1] by blast
  then have t3: "\<forall>t \<in> set (timers ?p3). callback t \<noteq> Import"
    using resume_timers(1) [of rt Scrape out ?p2] by simp
  have s1: "importStatus ?p1 = importStatus p" by (simp add: triggerScrape_def)
  have s2: "importStatus ?p2 = importStatus ?p1"
    using elapse_keeps_status [OF t1, of dt0] by simp
  have s3: "importStatus ?p3 = importStatus ?p2"
    by (cases out) (simp_all add: triggerScrape_resume_def setTimeout_def read_prop_def)
  have s4: "importStatus (elapse dt ?p3) = importStatus ?p3"
    using elapse_keeps_status [OF t3, of dt] by simp
  show "importStatus (elapse dt0 (triggerScrape p)) = importStatus p"
    using s1 s2 by simp
  show "importStatus (elapse dt (triggerScrape_resume rt out (elapse dt0 (triggerScrape p))))
           = importStatus p"
    using s1 s2 s3 s4 by simp
qed

lemma import_cycle_frame:
  assumes "\<forall>t \<in> set (timers p). callback t = Import"
  shows "scrapeStatus (elapse dt0 (triggerImport p)) = scrapeStatus p"
    and "scrapeStatus (elapse dt (triggerImport_resume rt out (elapse dt0 (triggerImport p))))
           = scrapeStatus p"
proof -
  let ?p1 = "triggerImport p"
  let ?p2 = "elapse dt0 ?p1"
  let ?p3 = "trigger_resume rt Import out ?p2"
  have t1: "\<forall>t \<in> set (timers ?p1). callback t \<noteq> Scrape"
    using assms by (simp add: triggerImport_def)
  then have t2: "\<forall>t \<in> set (timers ?p2). callback t \<noteq> Scrape"
    using elapse_timers [of dt0 ?p1] by blast
  then have t3: "\<forall>t \<in> set (timers ?p3). callback t \<noteq> Scrape"
    using resume_timers(1) [of rt Import out ?p2] by simp
  have s1: "scrapeStatus ?p1 = scrapeStatus p" by (simp add: triggerImport_def)
  have s2: "scrapeStatus ?p2 = scrapeStatus ?p1"
    using elapse_keeps_status [OF t1, of dt0] by simp
  have s3: "scrapeStatus ?p3 = scrapeStatus ?p2"
    by (cases out) (simp_all add: triggerImport_resume_def setTimeout_def read_prop_def)
  have s4: "scrapeStatus (elapse dt ?p3) = scrapeStatus ?p3"
    using elapse_keeps_status [OF t3, of dt] by simp
  show "scrapeStatus (elapse dt0 (triggerImport p)) = scrapeStatus p"
    using s1 s2 by simp
  show "scrapeStatus (elapse dt (triggerImport_resume rt out (elapse dt0 (triggerImport p))))
           = scrapeStatus p"
    using s1 s2 s3 s4 by simp
qed

text \<open>
  C7. Every step of the scrape job (the trigger, the answer to it with any outcome, its
  revert timer) leaves the import status as it was; every step of the import job leaves
  the scrape status as it was; and the health check, with any outcome, leaves both.
  Over a whole scrape cycle, with time passing before and after the answer and every
  timer that becomes due running, the import status stays what it was when no timer of
  the import job is pending; and symmetrically.
\<close>

theorem jobs_and_health_are_independent:
  "importStatus (triggerScrape p) = importStatus p \<and>
   importStatus (triggerScrape_resume rt out p) = importStatus p \<and>
   importStatus (run_callback Scrape p) = importStatus p \<and>
   scrapeStatus (triggerImport p) = scrapeStatus p \<and>
   scrapeStatus (triggerImport_resume rt out p) = scrapeStatus p \<and>
   scrapeStatus (run_callback Import p) = scrapeStatus p \<and>
   scrapeStatus (checkHealth out p) = scrapeStatus p \<and>
   importStatus (checkHealth out p) = importStatus p \<and>
   ((\<forall>t \<in> set (timers p). callback t = Scrape) \<longrightarrow>
      importStatus (elapse dt0 (triggerScrape p)) = importStatus p \<and>
      importStatus (elapse dt (triggerScrape_resume rt out (elapse dt0 (triggerScrape p))))
        = importStatus p) \<and>
   ((\<forall>t \<in> set (timers q). callback t = Import) \<longrightarrow>
      scrapeStatus (elapse dt0 (triggerImport q)) = scrapeStatus q \<and>
      scrapeStatus (elapse dt (triggerImport_resume rt out (elapse dt0 (triggerImport q))))
        = scrapeStatus q)"
proof -
  have steps: "importStatus (triggerScrape p) = importStatus p \<and>
   importStatus (triggerScrape_resume rt out p) = importStatus p \<and>
   importStatus (run_callback Scrape p) = importStatus p \<and>
   scrapeStatus (triggerImport p) = scrapeStatus p \<and>
   scrapeStatus (triggerImport_resume rt out p) = scrapeStatus p \<and>
   scrapeStatus (run_callback Import p) = scrapeStatus p \<and>
   scrapeStatus (checkHealth out p) = scrapeStatus p \<and>
   importStatus (checkHealth out p) = importStatus p"
    by (cases out)
       (simp_all add: triggerScrape_def triggerImport_def triggerScrape_resume_def
          triggerImport_resume_def setTimeout_def checkHealth_def read_prop_def)
  show ?thesis
    using steps scrape_cycle_frame [of p] import_cycle_frame [of q]
    by blast
qed

theorem jobs_and_health_are_independent_witness:
  "map callback (timers retriggered) = [Scrape, Scrape] \<and>
   importStatus retriggered = Idle \<and>
   scrapeStatus (triggerScrape_resume sample_runtime (Rejected server_error)
                   (elapse 10 (triggerScrape retriggered))) = Error \<and>
   message (triggerScrape_resume sample_runtime (Rejected server_error)
              (elapse 10 (triggerScrape retriggered))) = Some (JStr (js ''scraper busy'')) \<and>
   scrapeStatus (elapse 5000 (triggerScrape_resume sample_runtime (Rejected server_error)
                   (elapse 10 (triggerScrape retriggered)))) = Idle \<and>
   importStatus (elapse 5000 (triggerScrape_resume sample_runtime (Rejected server_error)
                   (elapse 10 (triggerScrape retriggered)))) = Idle \<and>
   timers init_panel = [] \<and>
   scrapeStatus (elapse 3000 (triggerImport_resume sample_runtime (Resolved started)
                   (elapse 10 (triggerImport init_panel)))) = Idle"
proof -
  have a: "\<forall>t \<in> set (timers retriggered). callback t = Scrape"
    by (simp add: retriggered_eq)
  have b: "\<forall>t \<in> set (timers init_panel). callback t = Import"
    by (simp add: init_panel_def)
  have c: "triggerScrape_resume sample_runtime (Rejected server_error)
             (elapse 10 (triggerScrape retriggered)) =
     \<lparr>health = JNull, scrapeStatus = Error, importStatus = Idle,
      message = Some (JStr (js ''scraper busy'')),
      timers = [\<lparr>due = 3000, callback = Scrape\<rparr>, \<lparr>due = 5000, callback = Scrape\<rparr>,
                \<lparr>due = 5010, callback = Scrape\<rparr>],
      clock = 2010\<rparr>"
    by (simp add: retriggered_eq triggerScrape_def triggerScrape_resume_def setTimeout_def
          elapse_def server_error_def js_or_def truthy_opt_def js_simps Let_def)
  have d: "scrapeStatus (elapse 5000 (triggerScrape_resume sample_runtime (Rejected server_error)
                   (elapse 10 (triggerScrape retriggered)))) = Idle"
    unfolding c by (simp add: elapse_def Let_def)
  show ?thesis
    using jobs_and_health_are_independent
            [of retriggered sample_runtime "Rejected server_error" 10 5000 init_panel]
          jobs_and_health_are_independent
            [of retriggered sample_runtime "Resolved started" 10 3000 init_panel]
          a b d
    by (simp add: c) (simp add: retriggered_eq init_panel_def)
qed

text \<open>
  C9, as the claim states it, fails for the job triggers: their \<open>catch\<close> blocks do not
  read \<open>error.message\<close>. On a network error, which carries no response and the message
  \<open>Network Error\<close>, the recorded message is the fixed text.
\<close>

theorem job_error_skips_transport_message:
  "opt_prop (err_response network_error) (js ''detail'') = None \<and>
   err_message network_error = js ''Network Error'' \<and>
   message (triggerScrape_resume sample_runtime (Rejected network_error) (triggerScrape init_panel))
     = Some (JStr (js ''Failed to start scraper'')) \<and>
   message (triggerScrape_resume sample_runtime (Rejected network_error) (triggerScrape init_panel))
     \<noteq> Some (JStr (err_message network_error))"
  by (simp add: network_error_def triggerScrape_resume_def triggerScrape_def init_panel_def
        setTimeout_def js_or_def truthy_opt_def js_simps)

text \<open>
  C9, amended. On a query failure the recorded error is the \<open>detail\<close> field of the error
  response body if it is present and truthy, else the error's message if it is not
  empty, else the fixed text \<open>Failed to process query\<close>. On a job-trigger failure the
  status becomes error and the recorded message is the \<open>detail\<close> field if it is present
  and truthy, else the fixed text of that job; the transport-level description is not
  used.
\<close>

theorem error_message_preference:
  "query_error e =
     (if truthy_opt (opt_prop (err_response e) (js ''detail''))
      then opt_prop (err_response e) (js ''detail'')
      else if err_message e \<noteq> [] then Some (JStr (err_message e))
      else Some (JStr (js ''Failed to process query''))) \<and>
   handleSubmit_resume rt req (Rejected e) s =
     Inr (s\<lparr>history := history s @
               [Answer \<lparr>a_question = None, a_sql = None, a_data = None, a_columns = None,
                        a_error = query_error e\<rparr>],
            loading := False\<rparr>) \<and>
   message (triggerScrape_resume rt (Rejected e) p) =
     (if truthy_opt (opt_prop (err_response e) (js ''detail''))
      then opt_prop (err_response e) (js ''detail'')
      else Some (JStr (js ''Failed to start scraper''))) \<and>
   scrapeStatus (triggerScrape_resume rt (Rejected e) p) = Error \<and>
   message (triggerImport_resume rt (Rejected e) p) =
     (if truthy_opt (opt_prop (err_response e) (js ''detail''))
      then opt_prop (err_response e) (js ''detail'')
      else Some (JStr (js ''Failed to start importer''))) \<and>
   importStatus (triggerImport_resume rt (Rejected e) p) = Error"
  by (simp add: query_error_def js_or_def truthy_opt_def handleSubmit_resume_def try_block_def
        catch_block_def triggerScrape_resume_def triggerImport_resume_def setTimeout_def)

theorem error_message_preference_witness:
  "query_error server_error = Some (JStr (js ''scraper busy'')) \<and>
   query_error network_error = Some (JStr (js ''Network Error'')) \<and>
   query_error \<lparr>err_response = None, err_message = []\<rparr> = Some (JStr (js ''Failed to process query'')) \<and>
   message (triggerScrape_resume sample_runtime (Rejected server_error) init_panel)
     = Some (JStr (js ''scraper busy'')) \<and>
   message (triggerImport_resume sample_runtime (Rejected network_error) init_panel)
     = Some (JStr (js ''Failed to start importer''))"
  using error_message_preference [of server_error sample_runtime undefined undefined init_panel]
        error_message_preference [of network_error sample_runtime undefined undefined init_panel]
        error_message_preference [of "\<lparr>err_response = None, err_message = []\<rparr>" sample_runtime undefined undefined init_panel]
  by (simp add: server_error_def network_error_def truthy_opt_def js_simps)

end
